theory Spec2Isabelle
  imports Complex_Main
begin

section \<open>Floating-point values as numpy produces them\<close>

text \<open>
  The program computes with numpy's \<^verbatim>\<open>float64\<close>. The model keeps the special values that
  decide what the code does outside the domain of its formulas (\<^verbatim>\<open>np.log10(0)\<close> is
  \<^verbatim>\<open>-inf\<close>, \<^verbatim>\<open>np.log10(-1)\<close> is \<^verbatim>\<open>nan\<close>, both with a warning and without an exception) and
  idealises the finite values as real numbers: no rounding, no overflow, one zero.
\<close>

datatype npfloat = Fin real | PInf | NInf | NaN

fun is_fin :: "npfloat \<Rightarrow> bool" where
  "is_fin (Fin x) = True"
| "is_fin PInf = False"
| "is_fin NInf = False"
| "is_fin NaN = False"

fun fneg :: "npfloat \<Rightarrow> npfloat" where
  "fneg (Fin x) = Fin (- x)"
| "fneg PInf = NInf"
| "fneg NInf = PInf"
| "fneg NaN = NaN"

fun fadd :: "npfloat \<Rightarrow> npfloat \<Rightarrow> npfloat" where
  "fadd (Fin x) (Fin y) = Fin (x + y)"
| "fadd NaN b = NaN"
| "fadd a NaN = NaN"
| "fadd PInf NInf = NaN"
| "fadd NInf PInf = NaN"
| "fadd PInf b = PInf"
| "fadd a PInf = PInf"
| "fadd NInf b = NInf"
| "fadd a NInf = NInf"

definition fsub :: "npfloat \<Rightarrow> npfloat \<Rightarrow> npfloat" where
  "fsub a b = fadd a (fneg b)"

text \<open>An infinity multiplied by a finite factor of sign \<open>s\<close>: zero times infinity is nan.\<close>

definition signed_inf :: "real \<Rightarrow> npfloat" where
  "signed_inf s = (if 0 < s then PInf else if s < 0 then NInf else NaN)"

fun fmul :: "npfloat \<Rightarrow> npfloat \<Rightarrow> npfloat" where
  "fmul (Fin x) (Fin y) = Fin (x * y)"
| "fmul NaN b = NaN"
| "fmul a NaN = NaN"
| "fmul (Fin x) PInf = signed_inf x"
| "fmul (Fin x) NInf = signed_inf (- x)"
| "fmul PInf (Fin y) = signed_inf y"
| "fmul NInf (Fin y) = signed_inf (- y)"
| "fmul PInf PInf = PInf"
| "fmul PInf NInf = NInf"
| "fmul NInf PInf = NInf"
| "fmul NInf NInf = PInf"

text \<open>Division of numpy scalars: a zero divisor gives an infinity or nan, not an exception.\<close>

fun fdiv :: "npfloat \<Rightarrow> npfloat \<Rightarrow> npfloat" where
  "fdiv (Fin x) (Fin y) = (if y = 0 then signed_inf x else Fin (x / y))"
| "fdiv NaN b = NaN"
| "fdiv a NaN = NaN"
| "fdiv (Fin x) PInf = Fin 0"
| "fdiv (Fin x) NInf = Fin 0"
| "fdiv PInf (Fin y) = (if 0 \<le> y then PInf else NInf)"
| "fdiv NInf (Fin y) = (if 0 \<le> y then NInf else PInf)"
| "fdiv PInf b = NaN"
| "fdiv NInf b = NaN"

text \<open>The comparison \<^verbatim>\<open>a < b\<close>: false whenever an operand is nan.\<close>

fun flt :: "npfloat \<Rightarrow> npfloat \<Rightarrow> bool" where
  "flt (Fin x) (Fin y) = (x < y)"
| "flt NaN b = False"
| "flt a NaN = False"
| "flt a NInf = False"
| "flt PInf b = False"
| "flt NInf b = True"
| "flt a PInf = True"

text \<open>The comparison \<^verbatim>\<open>a <= b\<close>.\<close>

fun fle :: "npfloat \<Rightarrow> npfloat \<Rightarrow> bool" where
  "fle (Fin x) (Fin y) = (x \<le> y)"
| "fle NaN b = False"
| "fle a NaN = False"
| "fle NInf b = True"
| "fle a PInf = True"
| "fle a NInf = False"
| "fle PInf b = False"

fun np_log10 :: "npfloat \<Rightarrow> npfloat" where
  "np_log10 (Fin x) = (if 0 < x then Fin (log 10 x) else if x = 0 then NInf else NaN)"
| "np_log10 PInf = PInf"
| "np_log10 NInf = NaN"
| "np_log10 NaN = NaN"

fun np_sqrt :: "npfloat \<Rightarrow> npfloat" where
  "np_sqrt (Fin x) = (if 0 \<le> x then Fin (sqrt x) else NaN)"
| "np_sqrt PInf = PInf"
| "np_sqrt NInf = NaN"
| "np_sqrt NaN = NaN"

fun np_cos :: "npfloat \<Rightarrow> npfloat" where
  "np_cos (Fin x) = Fin (cos x)"
| "np_cos PInf = NaN"
| "np_cos NInf = NaN"
| "np_cos NaN = NaN"

definition np_radians :: "npfloat \<Rightarrow> npfloat" where
  "np_radians a = fmul a (Fin (pi / 180))"

section \<open>The propagation model\<close>

text \<open>Line 12 of \<^verbatim>\<open>generate_arcgis_coverage.py\<close>: the value of \<^verbatim>\<open>a_hm\<close>.\<close>

definition mobile_antenna_correction :: "npfloat \<Rightarrow> npfloat \<Rightarrow> npfloat" where
  "mobile_antenna_correction rx_height freq_mhz =
     fsub (fmul (fsub (fmul (Fin 1.1) (np_log10 freq_mhz)) (Fin 0.7)) rx_height)
          (fsub (fmul (Fin 1.56) (np_log10 freq_mhz)) (Fin 0.8))"

text \<open>
  \<^verbatim>\<open>hata_okahamaru_model(tx_height, rx_height, freq_mhz, distance_km, city_size='large')\<close>
  of \<^verbatim>\<open>generate_arcgis_coverage.py\<close>. The parameter \<^verbatim>\<open>city_size\<close> is never read. The body
  tests nothing and raises nothing: it returns the pair \<^verbatim>\<open>(L_hata, okahamaru_error)\<close> for
  every input.
\<close>

definition hata_okahamaru_model ::
  "npfloat \<Rightarrow> npfloat \<Rightarrow> npfloat \<Rightarrow> npfloat \<Rightarrow> npfloat \<times> npfloat" where
  "hata_okahamaru_model tx_height rx_height freq_mhz distance_km =
     (let a_hm = mobile_antenna_correction rx_height freq_mhz;
          L_hata =
            fadd (fsub (fsub (fadd (Fin 69.55) (fmul (Fin 26.16) (np_log10 freq_mhz)))
                             (fmul (Fin 13.82) (np_log10 tx_height)))
                       a_hm)
                 (fmul (fsub (Fin 44.9) (fmul (Fin 6.55) (np_log10 tx_height)))
                       (np_log10 distance_km));
          okahamaru_error =
            fadd (fadd (Fin 2.0) (fmul (Fin 0.5) (np_log10 distance_km)))
                 (fmul (Fin 0.3) (np_log10 (fdiv freq_mhz (Fin 900))))
      in (L_hata, okahamaru_error))"

text \<open>\<^verbatim>\<open>hata_model\<close> of \<^verbatim>\<open>radio_coverage_ub.py\<close>: the loss alone.\<close>

definition hata_model :: "npfloat \<Rightarrow> npfloat \<Rightarrow> npfloat \<Rightarrow> npfloat \<Rightarrow> npfloat" where
  "hata_model tx_height rx_height freq_mhz distance_km =
     (let a_hm = fsub (fmul (fsub (fmul (Fin 1.1) (np_log10 freq_mhz)) (Fin 0.7)) rx_height)
                      (fsub (fmul (Fin 1.56) (np_log10 freq_mhz)) (Fin 0.8));
          L =
            fadd (fsub (fsub (fadd (Fin 69.55) (fmul (Fin 26.16) (np_log10 freq_mhz)))
                             (fmul (Fin 13.82) (np_log10 tx_height)))
                       a_hm)
                 (fmul (fsub (Fin 44.9) (fmul (Fin 6.55) (np_log10 tx_height)))
                       (np_log10 distance_km))
      in L)"

section \<open>Exceptions, dictionaries and frames\<close>

datatype error = IndexError | KeyError | ValueError

definition ebind :: "error + 'a \<Rightarrow> ('a \<Rightarrow> error + 'b) \<Rightarrow> error + 'b" where
  "ebind m f = (case m of Inl e \<Rightarrow> Inl e | Inr x \<Rightarrow> f x)"

text \<open>A loop that appends one result per element and is left by the first exception.\<close>

fun traverse :: "('a \<Rightarrow> error + 'b) \<Rightarrow> 'a list \<Rightarrow> error + 'b list" where
  "traverse f [] = Inr []"
| "traverse f (x # xs) = ebind (f x) (\<lambda>y. ebind (traverse f xs) (\<lambda>ys. Inr (y # ys)))"

text \<open>\<^verbatim>\<open>xs[i]\<close> for an index that is not negative.\<close>

definition index :: "'a list \<Rightarrow> nat \<Rightarrow> error + 'a" where
  "index xs i = (if i < length xs then Inr (xs ! i) else Inl IndexError)"

datatype cell = Num npfloat | Str string

text \<open>A Python dict keeps its keys in insertion order; assigning to a present key keeps its place.\<close>

type_synonym pydict = "(string \<times> cell) list"

fun dict_set :: "string \<Rightarrow> cell \<Rightarrow> pydict \<Rightarrow> pydict" where
  "dict_set k v [] = [(k, v)]"
| "dict_set k v (p # ps) = (if fst p = k then (k, v) # ps else p # dict_set k v ps)"

definition dict_update :: "pydict \<Rightarrow> pydict \<Rightarrow> pydict" where
  "dict_update d kvs = fold (\<lambda>(k, v) acc. dict_set k v acc) kvs d"

text \<open>
  A pandas frame, column by column. \<^verbatim>\<open>pd.DataFrame(list_of_dicts)\<close> takes the keys in order of
  first appearance as columns and fills a key that a row lacks with nan; \<^verbatim>\<open>df[names]\<close> selects
  the named columns in the order of \<^verbatim>\<open>names\<close> and raises KeyError for a name that is no column.
\<close>

type_synonym dataframe = "(string \<times> cell list) list"

fun uniq :: "'a list \<Rightarrow> 'a list" where
  "uniq [] = []"
| "uniq (x # xs) = x # filter (\<lambda>y. y \<noteq> x) (uniq xs)"

definition dict_get :: "pydict \<Rightarrow> string \<Rightarrow> cell" where
  "dict_get d c = (case map_of d c of Some v \<Rightarrow> v | None \<Rightarrow> Num NaN)"

definition DataFrame :: "pydict list \<Rightarrow> dataframe" where
  "DataFrame ds = map (\<lambda>c. (c, map (\<lambda>d. dict_get d c) ds)) (uniq (concat (map (map fst) ds)))"

definition select_columns :: "string list \<Rightarrow> dataframe \<Rightarrow> error + dataframe" where
  "select_columns names df =
     traverse (\<lambda>c. case map_of df c of None \<Rightarrow> Inl KeyError | Some vs \<Rightarrow> Inr (c, vs)) names"

definition df_columns :: "dataframe \<Rightarrow> string list" where
  "df_columns df = map fst df"

text \<open>\<^verbatim>\<open>len(df)\<close>: the number of records.\<close>

definition df_len :: "dataframe \<Rightarrow> nat" where
  "df_len df = (case df of [] \<Rightarrow> 0 | col # _ \<Rightarrow> length (snd col))"

text \<open>The \<open>k\<close>-th record of a frame: one cell per column, in column order.\<close>

definition df_row :: "dataframe \<Rightarrow> nat \<Rightarrow> pydict" where
  "df_row df k = map (\<lambda>col. (fst col, snd col ! k)) df"

section \<open>Grid generation\<close>

text \<open>
  \<^verbatim>\<open>np.linspace(start, stop, num)\<close>: ValueError for a negative \<^verbatim>\<open>num\<close>; otherwise \<^verbatim>\<open>num\<close>
  samples \<^verbatim>\<open>i * step + start\<close> with \<^verbatim>\<open>step = (stop - start) / (num - 1)\<close>, the last one set to
  \<^verbatim>\<open>stop\<close>; for \<^verbatim>\<open>num = 1\<close> the one sample is \<^verbatim>\<open>0 * (stop - start) + start\<close>.
\<close>

definition np_linspace :: "npfloat \<Rightarrow> npfloat \<Rightarrow> int \<Rightarrow> error + npfloat list" where
  "np_linspace start stop num =
     (if num < 0 then Inl ValueError
      else let n = nat num;
               delta = fsub stop start;
               step = (if 1 < n then fdiv delta (Fin (real (n - 1))) else delta)
           in Inr (map (\<lambda>i. if 1 < n \<and> i = n - 1 then stop
                             else fadd (fmul (Fin (real i)) step) start) [0..<n]))"

text \<open>
  \<^verbatim>\<open>np.meshgrid(xs, ys)\<close> with the default \<^verbatim>\<open>indexing='xy'\<close>: two matrices with
  \<^verbatim>\<open>len(ys)\<close> rows and \<^verbatim>\<open>len(xs)\<close> columns, \<^verbatim>\<open>X[i][j] = xs[j]\<close> and \<^verbatim>\<open>Y[i][j] = ys[i]\<close>.
\<close>

definition np_meshgrid :: "'a list \<Rightarrow> 'a list \<Rightarrow> 'a list list \<times> 'a list list" where
  "np_meshgrid xs ys = (replicate (length ys) xs, map (\<lambda>y. replicate (length xs) y) ys)"

definition generate_coverage_grid ::
  "npfloat \<Rightarrow> npfloat \<Rightarrow> int \<Rightarrow> npfloat \<Rightarrow> error + (npfloat list list \<times> npfloat list list)" where
  "generate_coverage_grid center_lat center_lon grid_size area_km =
     (let km_per_deg = Fin 111;
          dlat = fdiv area_km km_per_deg;
          dlon = fdiv area_km (fmul km_per_deg (np_cos (np_radians center_lat)))
      in ebind (np_linspace (fsub center_lat (fdiv dlat (Fin 2)))
                            (fadd center_lat (fdiv dlat (Fin 2))) grid_size) (\<lambda>lats.
         ebind (np_linspace (fsub center_lon (fdiv dlon (Fin 2)))
                            (fadd center_lon (fdiv dlon (Fin 2))) grid_size) (\<lambda>lons.
         Inr (np_meshgrid lats lons))))"

section \<open>Coverage of one tower\<close>

text \<open>Lines 49 to 52: the planar distance from the tower to a grid point, in km.\<close>

definition raw_distance_km :: "npfloat \<Rightarrow> npfloat \<Rightarrow> npfloat \<Rightarrow> npfloat \<Rightarrow> npfloat" where
  "raw_distance_km tower_lat tower_lon lat lon =
     (let km_per_deg = Fin 111;
          dlat = fmul (fsub lat tower_lat) km_per_deg;
          dlon = fmul (fmul (fsub lon tower_lon) km_per_deg) (np_cos (np_radians tower_lat))
      in np_sqrt (fadd (fmul dlat dlat) (fmul dlon dlon)))"

text \<open>Lines 54 and 55: \<^verbatim>\<open>if distance_km < 0.01: distance_km = 0.01\<close>.\<close>

definition floor_distance :: "npfloat \<Rightarrow> npfloat" where
  "floor_distance distance_km = (if flt distance_km (Fin 0.01) then Fin 0.01 else distance_km)"

text \<open>Lines 67 to 72: the environment type.\<close>

definition env_type :: "npfloat \<Rightarrow> string" where
  "env_type distance_km =
     (if flt distance_km (Fin 2) then ''Urban''
      else if flt distance_km (Fin 5) then ''Suburban''
      else ''Rural'')"

text \<open>The body of the two loops: the dict appended for one grid point.\<close>

definition coverage_point ::
  "npfloat \<Rightarrow> npfloat \<Rightarrow> npfloat \<Rightarrow> npfloat \<Rightarrow> npfloat \<Rightarrow> npfloat \<Rightarrow> npfloat \<Rightarrow> pydict" where
  "coverage_point tower_lat tower_lon tower_height tx_power freq_mhz lat lon =
     (let distance_km = floor_distance (raw_distance_km tower_lat tower_lon lat lon);
          rx_height = Fin 1.5;
          (path_loss, okahamaru_error) =
             hata_okahamaru_model tower_height rx_height freq_mhz distance_km;
          rx_power = fsub tx_power path_loss
      in [(''Latitude'', Num lat),
          (''Longitude'', Num lon),
          (''Distance_km'', Num distance_km),
          (''Path_Loss_dB'', Num path_loss),
          (''Signal_Strength_dBm'', Num rx_power),
          (''Okahamaru_Error_dB'', Num okahamaru_error),
          (''Environment_Type'', Str (env_type distance_km))])"

text \<open>
  The loops run \<^verbatim>\<open>i\<close> over \<^verbatim>\<open>range(len(grid_lats))\<close> and \<^verbatim>\<open>j\<close> over
  \<^verbatim>\<open>range(len(grid_lats[0]))\<close>; reading \<^verbatim>\<open>grid_lats[i][j]\<close> or \<^verbatim>\<open>grid_lons[i][j]\<close> out of
  range raises IndexError.
\<close>

definition calculate_coverage_for_tower ::
  "npfloat \<Rightarrow> npfloat \<Rightarrow> npfloat \<Rightarrow> npfloat \<Rightarrow> npfloat \<Rightarrow>
   npfloat list list \<Rightarrow> npfloat list list \<Rightarrow> error + pydict list" where
  "calculate_coverage_for_tower tower_lat tower_lon tower_height tx_power freq_mhz
       grid_lats grid_lons =
     (case grid_lats of
        [] \<Rightarrow> Inr []
      | row0 # _ \<Rightarrow>
          ebind (traverse (\<lambda>i.
                   traverse (\<lambda>j.
                     ebind (index grid_lats i) (\<lambda>lat_row.
                     ebind (index lat_row j) (\<lambda>lat.
                     ebind (index grid_lons i) (\<lambda>lon_row.
                     ebind (index lon_row j) (\<lambda>lon.
                     Inr (coverage_point tower_lat tower_lon tower_height tx_power freq_mhz
                            lat lon))))))
                   [0..<length row0])
                 [0..<length grid_lats])
            (\<lambda>blocks. Inr (concat blocks)))"

section \<open>The aggregator\<close>

record tower =
  tower_lat :: npfloat
  tower_lon :: npfloat
  tower_height :: npfloat
  tower_power :: npfloat
  tower_freq :: npfloat
  tower_id :: string
  tower_type :: string

text \<open>Lines 117 to 127: \<^verbatim>\<open>point.update({...})\<close> with the data of the tower.\<close>

definition add_tower_info :: "tower \<Rightarrow> pydict \<Rightarrow> pydict" where
  "add_tower_info t point =
     dict_update point
       [(''Tower_Lat'', Num (tower_lat t)),
        (''Tower_Lon'', Num (tower_lon t)),
        (''Tower_Height_m'', Num (tower_height t)),
        (''Tower_Power_dBm'', Num (tower_power t)),
        (''Frequency_MHz'', Num (tower_freq t)),
        (''Cell_ID'', Str (tower_id t)),
        (''Tower_Type'', Str (tower_type t)),
        (''Model_Type'', Str ''Hata_Okahamaru'')]"

text \<open>Lines 111 to 127: the coverage of one tower, each point updated with the tower's data.\<close>

definition tower_block :: "tower \<Rightarrow> npfloat list list \<Rightarrow> npfloat list list \<Rightarrow> error + pydict list" where
  "tower_block t grid_lats grid_lons =
     ebind (calculate_coverage_for_tower (tower_lat t) (tower_lon t) (tower_height t)
              (tower_power t) (tower_freq t) grid_lats grid_lons) (\<lambda>coverage_data.
     Inr (map (add_tower_info t) coverage_data))"

text \<open>Lines 107 to 129: \<^verbatim>\<open>all_coverage_data\<close> after the loop over the towers.\<close>

definition all_coverage_data ::
  "tower list \<Rightarrow> npfloat list list \<Rightarrow> npfloat list list \<Rightarrow> error + pydict list" where
  "all_coverage_data towers grid_lats grid_lons =
     ebind (traverse (\<lambda>t. tower_block t grid_lats grid_lons) towers) (\<lambda>blocks.
     Inr (concat blocks))"

definition column_order :: "string list" where
  "column_order =
     [''Latitude'', ''Longitude'', ''Tower_Lat'', ''Tower_Lon'', ''Tower_Height_m'',
      ''Tower_Power_dBm'', ''Frequency_MHz'', ''Distance_km'', ''Path_Loss_dB'',
      ''Signal_Strength_dBm'', ''Okahamaru_Error_dB'', ''Cell_ID'', ''Tower_Type'',
      ''Environment_Type'', ''Model_Type'']"

text \<open>
  Lines 103 to 142 with the tower list and the grid configuration as arguments: the grid, the
  aggregated points, the frame and the selection of its columns.
\<close>

definition coverage_dataset ::
  "tower list \<Rightarrow> npfloat \<Rightarrow> npfloat \<Rightarrow> int \<Rightarrow> npfloat \<Rightarrow> error + dataframe" where
  "coverage_dataset towers center_lat center_lon grid_size area_km =
     ebind (generate_coverage_grid center_lat center_lon grid_size area_km) (\<lambda>(grid_lats, grid_lons).
     ebind (all_coverage_data towers grid_lats grid_lons) (\<lambda>data.
     select_columns column_order (DataFrame data)))"

definition mk_tower ::
  "real \<Rightarrow> real \<Rightarrow> real \<Rightarrow> real \<Rightarrow> real \<Rightarrow> string \<Rightarrow> string \<Rightarrow> tower" where
  "mk_tower la lo h p f i ty =
     \<lparr>tower_lat = Fin la, tower_lon = Fin lo, tower_height = Fin h, tower_power = Fin p,
      tower_freq = Fin f, tower_id = i, tower_type = ty\<rparr>"

definition towers :: "tower list" where
  "towers =
     [mk_tower 47.9212 106.9186 30 43 900 ''TOWER_001'' ''Communication_Tower'',
      mk_tower 47.9250 106.9200 25 40 900 ''TOWER_002'' ''Antenna'',
      mk_tower 47.9180 106.9150 35 45 900 ''TOWER_003'' ''Communication_Tower'',
      mk_tower 47.9220 106.9220 20 38 900 ''TOWER_004'' ''Antenna'',
      mk_tower 47.9160 106.9180 40 47 900 ''TOWER_005'' ''Communication_Tower'',
      mk_tower 47.9240 106.9160 28 42 900 ''TOWER_006'' ''Antenna'',
      mk_tower 47.9200 106.9200 32 44 900 ''TOWER_007'' ''Communication_Tower'',
      mk_tower 47.9260 106.9190 22 39 900 ''TOWER_008'' ''Antenna'',
      mk_tower 47.9170 106.9210 38 46 900 ''TOWER_009'' ''Communication_Tower'',
      mk_tower 47.9230 106.9170 26 41 900 ''TOWER_010'' ''Antenna'']"


text \<open>
  The record that the aggregator holds for one tower and one grid point: the coverage point of
  lines 74 to 82, updated with the tower's data.
\<close>

definition tower_record :: "tower \<Rightarrow> npfloat \<Rightarrow> npfloat \<Rightarrow> pydict" where
  "tower_record t lat lon =
     add_tower_info t
       (coverage_point (tower_lat t) (tower_lon t) (tower_height t) (tower_power t)
          (tower_freq t) lat lon)"

text \<open>The keys of such a record, in the order of their insertion.\<close>

definition insertion_keys :: "string list" where
  "insertion_keys =
     [''Latitude'', ''Longitude'', ''Distance_km'', ''Path_Loss_dB'', ''Signal_Strength_dBm'',
      ''Okahamaru_Error_dB'', ''Environment_Type'', ''Tower_Lat'', ''Tower_Lon'',
      ''Tower_Height_m'', ''Tower_Power_dBm'', ''Frequency_MHz'', ''Cell_ID'', ''Tower_Type'',
      ''Model_Type'']"

section \<open>Reading the stated values\<close>

text \<open>
  A value written with a tolerance: \<open>approx v eps a\<close> holds when \<open>a\<close> is a finite number
  within \<open>eps\<close> of \<open>v\<close>. A value written to \<open>k\<close> decimals is read with half a unit of
  the last decimal as tolerance.
\<close>

fun approx :: "real \<Rightarrow> real \<Rightarrow> npfloat \<Rightarrow> bool" where
  "approx v eps (Fin x) = (\<bar>x - v\<bar> \<le> eps)"
| "approx v eps PInf = False"
| "approx v eps NInf = False"
| "approx v eps NaN = False"

fun approx_cell :: "real \<Rightarrow> real \<Rightarrow> cell \<Rightarrow> bool" where
  "approx_cell v eps (Num a) = approx v eps a"
| "approx_cell v eps (Str s) = False"

section \<open>Facts about the arithmetic\<close>

lemma fsub_Fin [simp]: "fsub (Fin x) (Fin y) = Fin (x - y)"
  by (simp add: fsub_def)

lemma not_fin_fneg: "\<not> is_fin a \<Longrightarrow> \<not> is_fin (fneg a)"
  by (cases a) simp_all

lemma not_fin_fadd1: "\<not> is_fin a \<Longrightarrow> \<not> is_fin (fadd a b)"
  by (cases a; cases b) simp_all

lemma not_fin_fadd2: "\<not> is_fin b \<Longrightarrow> \<not> is_fin (fadd a b)"
  by (cases a; cases b) simp_all

lemma not_fin_fsub1: "\<not> is_fin a \<Longrightarrow> \<not> is_fin (fsub a b)"
  by (simp add: fsub_def not_fin_fadd1)

lemma not_fin_fsub2: "\<not> is_fin b \<Longrightarrow> \<not> is_fin (fsub a b)"
  by (simp add: fsub_def not_fin_fadd2 not_fin_fneg)

lemma not_fin_signed_inf [simp]: "\<not> is_fin (signed_inf s)"
  by (simp add: signed_inf_def)

lemma not_fin_fmul2: "\<not> is_fin b \<Longrightarrow> \<not> is_fin (fmul a b)"
  by (cases a; cases b) simp_all

lemma not_fin_log10: "x \<le> 0 \<Longrightarrow> \<not> is_fin (np_log10 (Fin x))"
  by simp

text \<open>On positive finite arguments the model is the two formulas over the reals.\<close>

lemma hata_okahamaru_model_Fin:
  assumes "0 < h" "0 < f" "0 < d"
  shows "hata_okahamaru_model (Fin h) (Fin r) (Fin f) (Fin d) =
     (Fin (69.55 + 26.16 * log 10 f - 13.82 * log 10 h
            - ((1.1 * log 10 f - 0.7) * r - (1.56 * log 10 f - 0.8))
            + (44.9 - 6.55 * log 10 h) * log 10 d),
      Fin (2.0 + 0.5 * log 10 d + 0.3 * log 10 (f / 900)))"
  using assms
  by (simp add: hata_okahamaru_model_def mobile_antenna_correction_def Let_def)

text \<open>Bounds on the decimal logarithm of 3, from \<open>10\<^sup>5\<^sup>2 < 3\<^sup>1\<^sup>0\<^sup>9\<close> and \<open>3\<^sup>1\<^sup>5\<^sup>3 < 10\<^sup>7\<^sup>3\<close>.\<close>

lemma log10_3_lower: "52 / 109 < log 10 3"
proof -
  have "(10::real) ^ 52 < 3 ^ 109" by simp
  then have "log 10 (10 ^ 52) < log 10 ((3::real) ^ 109)"
    by (subst log_less_cancel_iff) simp_all
  moreover have "log 10 ((10::real) ^ 52) = real 52"
    by (rule log_pow_cancel) simp_all
  moreover have "log 10 ((3::real) ^ 109) = real 109 * log 10 3"
    by (rule log_nat_power) simp
  ultimately have "real 52 < real 109 * log 10 3"
    by (simp only:)
  then show ?thesis by simp
qed

lemma log10_3_upper: "log 10 3 < 73 / 153"
proof -
  have "(3::real) ^ 153 < 10 ^ 73" by simp
  then have "log 10 ((3::real) ^ 153) < log 10 (10 ^ 73)"
    by (subst log_less_cancel_iff) simp_all
  moreover have "log 10 ((10::real) ^ 73) = real 73"
    by (rule log_pow_cancel) simp_all
  moreover have "log 10 ((3::real) ^ 153) = real 153 * log 10 3"
    by (rule log_nat_power) simp
  ultimately have "real 153 * log 10 3 < real 73"
    by (simp only:)
  then show ?thesis by simp
qed

lemma log10_900: "log 10 900 = 2 + 2 * log 10 3"
proof -
  have "log 10 900 = log 10 (10 ^ 2 * 3 ^ 2)" by simp
  also have "\<dots> = log 10 (10 ^ 2) + log 10 (3 ^ 2)"
    by (rule log_mult_pos) simp_all
  also have "log 10 ((10::real) ^ 2) = real 2"
    by (rule log_pow_cancel) simp_all
  also have "log 10 ((3::real) ^ 2) = real 2 * log 10 3"
    by (rule log_nat_power) simp
  finally show ?thesis by simp
qed

lemma log10_30: "log 10 30 = 1 + log 10 3"
proof -
  have "log 10 30 = log 10 (10 * 3)" by simp
  also have "\<dots> = log 10 10 + log 10 3"
    by (rule log_mult_pos) simp_all
  finally show ?thesis by simp
qed

lemma log10_hundredth: "log 10 (1 / 100) = - 2"
proof -
  have "log 10 (1 / 100) = - log 10 (10 ^ 2)"
    by (simp add: log_recip)
  also have "log 10 (10 ^ 2) = real 2"
    by (rule log_pow_cancel) simp_all
  finally show ?thesis by simp
qed

lemma log10_10000000: "log 10 10000000 = 7"
proof -
  have "log 10 (10 ^ 7) = real 7" by (rule log_pow_cancel) simp_all
  then show ?thesis by simp
qed

section \<open>The propagation model: validation, monotonicity, the two implementations\<close>

text \<open>
  C1, as the code has it. \<^verbatim>\<open>hata_okahamaru_model\<close> validates nothing. For a transmitter height
  or a frequency that is zero or negative it raises no error: it evaluates the logarithms and
  returns a pair whose path loss is not a finite number (an infinity or nan).
\<close>

theorem hata_okahamaru_model_no_validation:
  "h \<le> 0 \<or> f \<le> 0 \<Longrightarrow> \<not> is_fin (fst (hata_okahamaru_model (Fin h) rx (Fin f) d))"
proof (erule disjE)
  assume "h \<le> 0"
  then have "\<not> is_fin (fmul (Fin 13.82) (np_log10 (Fin h)))"
    by (intro not_fin_fmul2 not_fin_log10)
  then show ?thesis
    unfolding hata_okahamaru_model_def Let_def fst_conv
    by (intro not_fin_fadd1 not_fin_fsub1 not_fin_fsub2)
next
  assume "f \<le> 0"
  then have "\<not> is_fin (fmul (Fin 26.16) (np_log10 (Fin f)))"
    by (intro not_fin_fmul2 not_fin_log10)
  then show ?thesis
    unfolding hata_okahamaru_model_def Let_def fst_conv
    by (intro not_fin_fadd1 not_fin_fsub1 not_fin_fadd2)
qed

theorem hata_okahamaru_model_no_validation_witness:
  "((0::real) \<le> 0 \<or> (900::real) \<le> 0) \<and>
   \<not> is_fin (fst (hata_okahamaru_model (Fin 0) (Fin 1.5) (Fin 900) (Fin 1)))"
  using hata_okahamaru_model_no_validation [of 0 900 "Fin 1.5" "Fin 1"] by simp

text \<open>
  C1 as stated fails: with a transmitter height of 0 m (receiver at 1.5 m, 900 MHz, 1 km) the
  call returns the pair \<^verbatim>\<open>(nan, 2.0)\<close>.
\<close>

theorem hata_okahamaru_model_zero_height_returns_nan:
  "hata_okahamaru_model (Fin 0) (Fin 1.5) (Fin 900) (Fin 1) = (NaN, Fin 2)"
  by (simp add: hata_okahamaru_model_def mobile_antenna_correction_def Let_def
        signed_inf_def fsub_def)

text \<open>
  C7, as the code has it. The factor of \<^verbatim>\<open>log10(distance_km)\<close> is
  \<^verbatim>\<open>44.9 - 6.55 * log10(tx_height)\<close>. For a transmitter height \<open>h > 0\<close> with
  \<open>6.55 \<sqdot> log\<^sub>1\<^sub>0 h \<le> 44.9\<close> (up to about seven thousand kilometres) and a frequency above 0,
  the path loss does not decrease from a distance \<open>d1 \<ge> 0.01\<close> to a distance \<open>d2 \<ge> d1\<close>.
\<close>

theorem path_loss_monotone_in_distance:
  assumes "0 < h" "6.55 * log 10 h \<le> 44.9" "0 < f" "0.01 \<le> d1" "d1 \<le> d2"
  shows "fle (fst (hata_okahamaru_model (Fin h) (Fin r) (Fin f) (Fin d1)))
             (fst (hata_okahamaru_model (Fin h) (Fin r) (Fin f) (Fin d2)))"
proof -
  have d: "0 < d1" "0 < d2" using assms(4,5) by simp_all
  have "log 10 d1 \<le> log 10 d2" using d assms by simp
  then have "(44.9 - 6.55 * log 10 h) * log 10 d1 \<le> (44.9 - 6.55 * log 10 h) * log 10 d2"
    using assms(2) by (intro mult_left_mono) simp_all
  then show ?thesis
    using assms d by (simp add: hata_okahamaru_model_Fin)
qed

theorem path_loss_monotone_in_distance_witness:
  "(0::real) < 30 \<and> 6.55 * log 10 30 \<le> (44.9::real) \<and> (0::real) < 900 \<and>
   (0.01::real) \<le> 1 \<and> (1::real) \<le> 10 \<and>
   fle (fst (hata_okahamaru_model (Fin 30) (Fin 1.5) (Fin 900) (Fin 1)))
       (fst (hata_okahamaru_model (Fin 30) (Fin 1.5) (Fin 900) (Fin 10)))"
proof -
  have h: "6.55 * log 10 30 \<le> (44.9::real)"
    using log10_3_upper by (simp add: log10_30)
  show ?thesis
    using h path_loss_monotone_in_distance [of 30 900 1 10 "1.5"] by simp
qed

text \<open>
  C7 as stated fails: for a transmitter height of \<open>10\<^sup>7\<close> m the factor is
  \<open>44.9 - 6.55 \<sqdot> 7 < 0\<close>, and the path loss at 1 km is not at most the path loss at 10 km.
\<close>

theorem path_loss_decreasing_for_huge_height:
  "\<not> fle (fst (hata_okahamaru_model (Fin 10000000) (Fin 1.5) (Fin 900) (Fin 1)))
          (fst (hata_okahamaru_model (Fin 10000000) (Fin 1.5) (Fin 900) (Fin 10)))"
  by (simp add: hata_okahamaru_model_Fin log10_10000000)

text \<open>
  C10. \<^verbatim>\<open>hata_model\<close> of \<^verbatim>\<open>radio_coverage_ub.py\<close> returns the first component of
  \<^verbatim>\<open>hata_okahamaru_model\<close> of \<^verbatim>\<open>generate_arcgis_coverage.py\<close>, for all arguments (the positive
  ones of the claim among them): the error term is the second component and is no part of the
  first.
\<close>

theorem hata_model_eq_fst_hata_okahamaru_model:
  "hata_model tx_height rx_height freq_mhz distance_km =
     fst (hata_okahamaru_model tx_height rx_height freq_mhz distance_km)"
  by (simp add: hata_model_def hata_okahamaru_model_def mobile_antenna_correction_def Let_def)

section \<open>Environment classification\<close>

text \<open>
  C5. The environment type is a step function of the distance with inclusive lower edges:
  Urban on \<open>[0, 2)\<close>, Suburban on \<open>[2, 5)\<close>, Rural from 5 on, infinity included; and the
  environment type stored in a coverage point is this function of the distance stored in it.
\<close>

theorem env_type_step_function:
  "(0 \<le> d \<and> d < 2 \<longrightarrow> env_type (Fin d) = ''Urban'') \<and>
   (2 \<le> d \<and> d < 5 \<longrightarrow> env_type (Fin d) = ''Suburban'') \<and>
   (5 \<le> d \<longrightarrow> env_type (Fin d) = ''Rural'') \<and>
   env_type PInf = ''Rural'' \<and>
   dict_get (coverage_point tlat tlon ht pw fq la lo) ''Distance_km'' =
     Num (floor_distance (raw_distance_km tlat tlon la lo)) \<and>
   dict_get (coverage_point tlat tlon ht pw fq la lo) ''Environment_Type'' =
     Str (env_type (floor_distance (raw_distance_km tlat tlon la lo)))"
  by (simp add: env_type_def coverage_point_def Let_def dict_get_def split: prod.splits)

theorem env_type_step_function_witness:
  "env_type (Fin 1.999) = ''Urban'' \<and> env_type (Fin 2) = ''Suburban'' \<and>
   env_type (Fin 4.999) = ''Suburban'' \<and> env_type (Fin 5) = ''Rural''"
  using env_type_step_function [of "1.999"] env_type_step_function [of 2]
    env_type_step_function [of "4.999"] env_type_step_function [of 5]
  by simp

section \<open>One coverage point\<close>

lemma raw_distance_km_Fin:
  "raw_distance_km (Fin tlat) (Fin tlon) (Fin la) (Fin lo) =
     Fin (sqrt (((la - tlat) * 111) * ((la - tlat) * 111) +
                ((lo - tlon) * 111 * cos (tlat * (pi / 180))) *
                ((lo - tlon) * 111 * cos (tlat * (pi / 180)))))"
  by (simp add: raw_distance_km_def np_radians_def Let_def)

lemma coverage_point_fields:
  "coverage_point tlat tlon ht pw fq la lo =
     (let d = floor_distance (raw_distance_km tlat tlon la lo);
          m = hata_okahamaru_model ht (Fin 1.5) fq d
      in [(''Latitude'', Num la),
          (''Longitude'', Num lo),
          (''Distance_km'', Num d),
          (''Path_Loss_dB'', Num (fst m)),
          (''Signal_Strength_dBm'', Num (fsub pw (fst m))),
          (''Okahamaru_Error_dB'', Num (snd m)),
          (''Environment_Type'', Str (env_type d))])"
  by (simp add: coverage_point_def Let_def split: prod.splits)

text \<open>
  C3. For a tower and a grid point at finite coordinates the raw distance is the planar
  approximation (111 km per degree of latitude, the longitude scaled by the cosine of the
  tower's latitude); the distance stored in the coverage point is the floored one, a finite
  number that is at least 0.01, and exactly 0.01 whenever the raw distance is below 0.01.
\<close>

theorem distance_km_floor:
  "raw_distance_km (Fin tlat) (Fin tlon) (Fin la) (Fin lo) =
     Fin (sqrt (((la - tlat) * 111) * ((la - tlat) * 111) +
                ((lo - tlon) * 111 * cos (tlat * (pi / 180))) *
                ((lo - tlon) * 111 * cos (tlat * (pi / 180))))) \<and>
   dict_get (coverage_point (Fin tlat) (Fin tlon) ht pw fq (Fin la) (Fin lo)) ''Distance_km'' =
     Num (floor_distance (raw_distance_km (Fin tlat) (Fin tlon) (Fin la) (Fin lo))) \<and>
   is_fin (floor_distance (raw_distance_km (Fin tlat) (Fin tlon) (Fin la) (Fin lo))) \<and>
   fle (Fin 0.01) (floor_distance (raw_distance_km (Fin tlat) (Fin tlon) (Fin la) (Fin lo))) \<and>
   (flt (raw_distance_km (Fin tlat) (Fin tlon) (Fin la) (Fin lo)) (Fin 0.01) \<longrightarrow>
      floor_distance (raw_distance_km (Fin tlat) (Fin tlon) (Fin la) (Fin lo)) = Fin 0.01)"
  by (simp add: raw_distance_km_Fin coverage_point_fields Let_def dict_get_def floor_distance_def)

theorem distance_km_floor_witness:
  "flt (raw_distance_km (Fin 47.9212) (Fin 106.9186) (Fin 47.9212) (Fin 106.9186)) (Fin 0.01) \<and>
   dict_get (coverage_point (Fin 47.9212) (Fin 106.9186) (Fin 30) (Fin 43) (Fin 900)
               (Fin 47.9212) (Fin 106.9186)) ''Distance_km'' = Num (Fin 0.01)"
proof -
  have r: "flt (raw_distance_km (Fin 47.9212) (Fin 106.9186) (Fin 47.9212) (Fin 106.9186))
             (Fin 0.01)"
    by (simp add: raw_distance_km_Fin)
  show ?thesis
    using r distance_km_floor
            [of "47.9212" "106.9186" "47.9212" "106.9186" "Fin 30" "Fin 43" "Fin 900"]
    by metis
qed

section \<open>The concrete scenario\<close>

lemma scenario_distance:
  "floor_distance (raw_distance_km (Fin 47.9212) (Fin 106.9186) (Fin 47.9212) (Fin 106.9186)) =
     Fin 0.01"
  by (simp add: raw_distance_km_Fin floor_distance_def)

lemma scenario_a_hm:
  "mobile_antenna_correction (Fin 1.5) (Fin 900) = Fin (0.18 * log 10 3 - 0.07)"
  by (simp add: mobile_antenna_correction_def log10_900 field_simps)

lemma scenario_model:
  "hata_okahamaru_model (Fin 30) (Fin 1.5) (Fin 900) (Fin 0.01) =
     (Fin (31.42 + 51.42 * log 10 3), Fin 1)"
proof -
  have "hata_okahamaru_model (Fin 30) (Fin 1.5) (Fin 900) (Fin (1 / 100)) =
     (Fin (31.42 + 51.42 * log 10 3), Fin 1)"
    unfolding hata_okahamaru_model_def Let_def scenario_a_hm
    by (simp add: log10_900 log10_30 log10_hundredth field_simps)
  then show ?thesis by simp
qed

text \<open>
  C8, as the code has it. Tower at (47.9212, 106.9186), 30 m, 43 dBm, 900 MHz, grid point at
  the tower: the distance is the floor 0.01; \<^verbatim>\<open>a_hm\<close> is 0.0159 to four decimals; the path
  loss is \<open>31.42 + 51.42 \<sqdot> log\<^sub>1\<^sub>0 3\<close>, which is 55.95 to two decimals, and the signal strength
  is -12.95 to two decimals; the error term is exactly 1; the environment is Urban.
\<close>

theorem concrete_scenario:
  "dict_get (coverage_point (Fin 47.9212) (Fin 106.9186) (Fin 30) (Fin 43) (Fin 900)
      (Fin 47.9212) (Fin 106.9186)) ''Distance_km'' = Num (Fin 0.01) \<and>
   approx 0.0159 0.00005 (mobile_antenna_correction (Fin 1.5) (Fin 900)) \<and>
   approx_cell 55.95 0.005
     (dict_get (coverage_point (Fin 47.9212) (Fin 106.9186) (Fin 30) (Fin 43) (Fin 900)
        (Fin 47.9212) (Fin 106.9186)) ''Path_Loss_dB'') \<and>
   approx_cell (- 12.95) 0.005
     (dict_get (coverage_point (Fin 47.9212) (Fin 106.9186) (Fin 30) (Fin 43) (Fin 900)
        (Fin 47.9212) (Fin 106.9186)) ''Signal_Strength_dBm'') \<and>
   dict_get (coverage_point (Fin 47.9212) (Fin 106.9186) (Fin 30) (Fin 43) (Fin 900)
      (Fin 47.9212) (Fin 106.9186)) ''Okahamaru_Error_dB'' = Num (Fin 1) \<and>
   dict_get (coverage_point (Fin 47.9212) (Fin 106.9186) (Fin 30) (Fin 43) (Fin 900)
      (Fin 47.9212) (Fin 106.9186)) ''Environment_Type'' = Str ''Urban''"
  unfolding coverage_point_fields Let_def scenario_distance scenario_model scenario_a_hm
  using log10_3_lower log10_3_upper
  by (simp add: dict_get_def env_type_def abs_le_iff)

text \<open>
  C8 as stated fails in two of its values: the path loss is further than 0.01 from 55.94 and
  the signal strength further than 0.01 from -12.94.
\<close>

theorem concrete_scenario_path_loss_not_55_94:
  "\<not> approx_cell 55.94 0.01
     (dict_get (coverage_point (Fin 47.9212) (Fin 106.9186) (Fin 30) (Fin 43) (Fin 900)
        (Fin 47.9212) (Fin 106.9186)) ''Path_Loss_dB'') \<and>
   \<not> approx_cell (- 12.94) 0.01
     (dict_get (coverage_point (Fin 47.9212) (Fin 106.9186) (Fin 30) (Fin 43) (Fin 900)
        (Fin 47.9212) (Fin 106.9186)) ''Signal_Strength_dBm'')"
  unfolding coverage_point_fields Let_def scenario_distance scenario_model
  using log10_3_lower log10_3_upper
  by (simp add: dict_get_def abs_le_iff)

section \<open>The loops, the grid and the frame\<close>

lemma ebind_Inr [simp]: "ebind (Inr x) f = f x"
  by (simp add: ebind_def)

lemma ebind_Inl [simp]: "ebind (Inl e) f = Inl e"
  by (simp add: ebind_def)

lemma traverse_Inr:
  "(\<And>x. x \<in> set xs \<Longrightarrow> f x = Inr (g x)) \<Longrightarrow> traverse f xs = Inr (map g xs)"
  by (induction xs) simp_all

lemma index_Inr [simp]: "i < length xs \<Longrightarrow> index xs i = Inr (xs ! i)"
  by (simp add: index_def)

lemma calculate_coverage_for_tower_rect:
  assumes "length gn = length gl"
    and "\<forall>row \<in> set gl. length row = m"
    and "\<forall>row \<in> set gn. length row = m"
  shows "calculate_coverage_for_tower a b h p f gl gn =
     Inr (concat (map (\<lambda>i. map (\<lambda>j. coverage_point a b h p f (gl ! i ! j) (gn ! i ! j))
                              [0..<m]) [0..<length gl]))"
proof (cases gl)
  case Nil
  then show ?thesis by (simp add: calculate_coverage_for_tower_def)
next
  case (Cons row0 rest)
  then have m: "length row0 = m" using assms(2) by simp
  have inner: "traverse (\<lambda>j.
                 ebind (index gl i) (\<lambda>lat_row.
                 ebind (index lat_row j) (\<lambda>lat.
                 ebind (index gn i) (\<lambda>lon_row.
                 ebind (index lon_row j) (\<lambda>lon.
                 Inr (coverage_point a b h p f lat lon)))))) [0..<m] =
               Inr (map (\<lambda>j. coverage_point a b h p f (gl ! i ! j) (gn ! i ! j)) [0..<m])"
    if "i \<in> set [0..<length gl]" for i
  proof (rule traverse_Inr)
    fix j assume "j \<in> set [0..<m]"
    then have j: "j < m" by simp
    have i: "i < length gl" "i < length gn" using that assms(1) by simp_all
    have "length (gl ! i) = m" "length (gn ! i) = m"
      using i assms(2,3) by (simp_all add: nth_mem)
    then show "ebind (index gl i) (\<lambda>lat_row.
                 ebind (index lat_row j) (\<lambda>lat.
                 ebind (index gn i) (\<lambda>lon_row.
                 ebind (index lon_row j) (\<lambda>lon.
                 Inr (coverage_point a b h p f lat lon))))) =
               Inr (coverage_point a b h p f (gl ! i ! j) (gn ! i ! j))"
      using i j by simp
  qed
  have outer: "traverse (\<lambda>i. traverse (\<lambda>j.
                 ebind (index gl i) (\<lambda>lat_row.
                 ebind (index lat_row j) (\<lambda>lat.
                 ebind (index gn i) (\<lambda>lon_row.
                 ebind (index lon_row j) (\<lambda>lon.
                 Inr (coverage_point a b h p f lat lon)))))) [0..<m]) [0..<length gl] =
               Inr (map (\<lambda>i. map (\<lambda>j. coverage_point a b h p f (gl ! i ! j) (gn ! i ! j))
                                [0..<m]) [0..<length gl])"
    by (rule traverse_Inr) (rule inner)
  show ?thesis
    unfolding calculate_coverage_for_tower_def Cons list.case m
    unfolding Cons [symmetric]
    by (simp add: outer)
qed

lemma all_coverage_data_rect:
  assumes "length gn = length gl"
    and "\<forall>row \<in> set gl. length row = m"
    and "\<forall>row \<in> set gn. length row = m"
  shows "all_coverage_data ts gl gn =
     Inr (concat (map (\<lambda>t. map (add_tower_info t)
        (concat (map (\<lambda>i. map (\<lambda>j. coverage_point (tower_lat t) (tower_lon t) (tower_height t)
                                     (tower_power t) (tower_freq t) (gl ! i ! j) (gn ! i ! j))
                              [0..<m]) [0..<length gl]))) ts))"
proof -
  have "traverse (\<lambda>t. tower_block t gl gn) ts =
     Inr (map (\<lambda>t. map (add_tower_info t)
        (concat (map (\<lambda>i. map (\<lambda>j. coverage_point (tower_lat t) (tower_lon t) (tower_height t)
                                     (tower_power t) (tower_freq t) (gl ! i ! j) (gn ! i ! j))
                              [0..<m]) [0..<length gl]))) ts)"
    by (rule traverse_Inr)
       (simp add: tower_block_def calculate_coverage_for_tower_rect [OF assms])
  then show ?thesis by (simp add: all_coverage_data_def)
qed

lemma concat_uniform_length:
  "\<forall>xs \<in> set xss. length xs = m \<Longrightarrow> length (concat xss) = length xss * m"
  by (induction xss) simp_all

lemma concat_uniform_nth:
  "\<forall>xs \<in> set xss. length xs = m \<Longrightarrow> i < length xss \<Longrightarrow> j < m \<Longrightarrow>
     concat xss ! (i * m + j) = xss ! i ! j"
proof (induction xss arbitrary: i)
  case Nil
  then show ?case by simp
next
  case (Cons xs xss)
  show ?case
  proof (cases i)
    case 0
    then show ?thesis using Cons.prems by (simp add: nth_append)
  next
    case (Suc i')
    have "concat (xs # xss) ! (i * m + j) = concat xss ! (i' * m + j)"
      using Cons.prems Suc by (simp add: nth_append)
    also have "\<dots> = xss ! i' ! j"
      using Cons.prems Suc by (intro Cons.IH) simp_all
    finally show ?thesis using Suc by simp
  qed
qed

lemma index_in_square: "i < n \<Longrightarrow> j < n \<Longrightarrow> i * n + j < n * (n::nat)"
proof -
  assume a: "i < n" "j < n"
  have "Suc i * n \<le> n * n" using a(1) by (intro mult_le_mono1) simp
  moreover have "i * n + j < Suc i * n" using a(2) by simp
  ultimately show ?thesis by (rule less_le_trans [rotated])
qed

lemma filter_uniq: "filter P (uniq zs) = uniq (filter P zs)"
proof (induction zs)
  case Nil
  then show ?case by simp
next
  case (Cons z zs)
  show ?case
  proof (cases "P z")
    case True
    have "filter P (filter (\<lambda>y. y \<noteq> z) (uniq zs)) = filter (\<lambda>y. y \<noteq> z) (filter P (uniq zs))"
      by (simp add: conj_commute)
    then show ?thesis using True Cons.IH by simp
  next
    case False
    have "filter P (filter (\<lambda>y. y \<noteq> z) (uniq zs)) = filter P (uniq zs)"
      using False by (auto intro: filter_cong)
    then show ?thesis using False Cons.IH by simp
  qed
qed

lemma uniq_append_subset:
  "distinct xs \<Longrightarrow> set ys \<subseteq> set xs \<Longrightarrow> uniq (xs @ ys) = xs"
proof (induction xs arbitrary: ys)
  case Nil
  then show ?case by simp
next
  case (Cons x xs)
  have nx: "filter (\<lambda>y. y \<noteq> x) xs = xs"
    using Cons.prems(1) by (auto intro: filter_True)
  have "uniq ((x # xs) @ ys) = x # uniq (filter (\<lambda>y. y \<noteq> x) (xs @ ys))"
    by (simp add: filter_uniq)
  also have "filter (\<lambda>y. y \<noteq> x) (xs @ ys) = xs @ filter (\<lambda>y. y \<noteq> x) ys"
    by (simp add: nx)
  also have "uniq (xs @ filter (\<lambda>y. y \<noteq> x) ys) = xs"
    using Cons.prems by (intro Cons.IH) auto
  finally show ?case .
qed

lemma uniq_same_keys:
  assumes "ds \<noteq> []" "distinct ks" "\<forall>d \<in> set ds. map fst d = ks"
  shows "uniq (concat (map (map fst) ds)) = ks"
proof -
  obtain d ds' where ds: "ds = d # ds'" using assms(1) by (cases ds) auto
  have "concat (map (map fst) ds) = ks @ concat (map (map fst) ds')"
    using assms(3) ds by simp
  moreover have "set (concat (map (map fst) ds')) \<subseteq> set ks"
    using assms(3) ds by auto
  ultimately show ?thesis
    using assms(2) by (simp add: uniq_append_subset)
qed

lemma select_columns_present:
  assumes "set names \<subseteq> set ks"
  shows "select_columns names (map (\<lambda>c. (c, g c)) ks) = Inr (map (\<lambda>c. (c, g c)) names)"
  unfolding select_columns_def
proof (rule traverse_Inr)
  fix c assume "c \<in> set names"
  then have "c \<in> set ks" using assms by auto
  then have "map_of (map (\<lambda>c. (c, g c)) ks) c = Some (g c)"
    by (induction ks) auto
  then show "(case map_of (map (\<lambda>c. (c, g c)) ks) c of
                None \<Rightarrow> Inl KeyError | Some vs \<Rightarrow> Inr (c, vs)) = Inr (c, g c)"
    by simp
qed


lemma np_linspace_Inr:
  "0 \<le> n \<Longrightarrow> \<exists>xs. np_linspace a b n = Inr xs \<and> length xs = nat n"
  by (simp add: np_linspace_def Let_def)

lemma np_linspace_Inl: "n < 0 \<Longrightarrow> np_linspace a b n = Inl ValueError"
  by (simp add: np_linspace_def)

lemma generate_coverage_grid_shape:
  assumes "0 \<le> N"
  shows "\<exists>lats lons. length lats = nat N \<and> length lons = nat N \<and>
     generate_coverage_grid clat clon N area =
       Inr (replicate (nat N) lats, map (replicate (nat N)) lons)"
proof -
  let ?dlat = "fdiv area (Fin 111)"
  let ?dlon = "fdiv area (fmul (Fin 111) (np_cos (np_radians clat)))"
  obtain lats where lats:
    "np_linspace (fsub clat (fdiv ?dlat (Fin 2))) (fadd clat (fdiv ?dlat (Fin 2))) N = Inr lats"
    "length lats = nat N"
    using np_linspace_Inr [OF assms] by blast
  obtain lons where lons:
    "np_linspace (fsub clon (fdiv ?dlon (Fin 2))) (fadd clon (fdiv ?dlon (Fin 2))) N = Inr lons"
    "length lons = nat N"
    using np_linspace_Inr [OF assms] by blast
  have "generate_coverage_grid clat clon N area =
       Inr (replicate (nat N) lats, map (replicate (nat N)) lons)"
    by (simp add: generate_coverage_grid_def Let_def lats lons np_meshgrid_def)
  then show ?thesis using lats(2) lons(2) by blast
qed

lemma generate_coverage_grid_negative:
  "N < 0 \<Longrightarrow> generate_coverage_grid clat clon N area = Inl ValueError"
  by (simp add: generate_coverage_grid_def Let_def np_linspace_Inl)

lemma add_tower_info_fields:
  "add_tower_info t (coverage_point (tower_lat t) (tower_lon t) (tower_height t) (tower_power t)
       (tower_freq t) la lo) =
     (let d = floor_distance (raw_distance_km (tower_lat t) (tower_lon t) la lo);
          m = hata_okahamaru_model (tower_height t) (Fin 1.5) (tower_freq t) d
      in [(''Latitude'', Num la),
          (''Longitude'', Num lo),
          (''Distance_km'', Num d),
          (''Path_Loss_dB'', Num (fst m)),
          (''Signal_Strength_dBm'', Num (fsub (tower_power t) (fst m))),
          (''Okahamaru_Error_dB'', Num (snd m)),
          (''Environment_Type'', Str (env_type d)),
          (''Tower_Lat'', Num (tower_lat t)),
          (''Tower_Lon'', Num (tower_lon t)),
          (''Tower_Height_m'', Num (tower_height t)),
          (''Tower_Power_dBm'', Num (tower_power t)),
          (''Frequency_MHz'', Num (tower_freq t)),
          (''Cell_ID'', Str (tower_id t)),
          (''Tower_Type'', Str (tower_type t)),
          (''Model_Type'', Str ''Hata_Okahamaru'')])"
  by (simp add: add_tower_info_def coverage_point_fields dict_update_def Let_def)


lemma tower_record_fields:
  "tower_record t la lo =
     (let d = floor_distance (raw_distance_km (tower_lat t) (tower_lon t) la lo);
          m = hata_okahamaru_model (tower_height t) (Fin 1.5) (tower_freq t) d
      in [(''Latitude'', Num la),
          (''Longitude'', Num lo),
          (''Distance_km'', Num d),
          (''Path_Loss_dB'', Num (fst m)),
          (''Signal_Strength_dBm'', Num (fsub (tower_power t) (fst m))),
          (''Okahamaru_Error_dB'', Num (snd m)),
          (''Environment_Type'', Str (env_type d)),
          (''Tower_Lat'', Num (tower_lat t)),
          (''Tower_Lon'', Num (tower_lon t)),
          (''Tower_Height_m'', Num (tower_height t)),
          (''Tower_Power_dBm'', Num (tower_power t)),
          (''Frequency_MHz'', Num (tower_freq t)),
          (''Cell_ID'', Str (tower_id t)),
          (''Tower_Type'', Str (tower_type t)),
          (''Model_Type'', Str ''Hata_Okahamaru'')])"
  unfolding tower_record_def by (rule add_tower_info_fields)

lemma tower_record_keys: "map fst (tower_record t la lo) = insertion_keys"
  by (simp add: tower_record_fields Let_def insertion_keys_def)

lemma distinct_insertion_keys: "distinct insertion_keys"
  by (simp add: insertion_keys_def)

lemma column_order_subset: "set column_order \<subseteq> set insertion_keys"
  by (simp add: column_order_def insertion_keys_def)

lemma all_coverage_data_grid:
  assumes "length lats = n" "length lons = n"
  shows "all_coverage_data ts (replicate n lats) (map (replicate n) lons) =
     Inr (concat (map (\<lambda>t. concat (map (\<lambda>i. map (\<lambda>j. tower_record t (lats ! j) (lons ! i))
                                              [0..<n]) [0..<n])) ts))"
proof -
  have cell: "coverage_point (tower_lat t) (tower_lon t) (tower_height t)
             (tower_power t) (tower_freq t) (replicate n lats ! i ! j)
             (map (replicate n) lons ! i ! j) =
           coverage_point (tower_lat t) (tower_lon t) (tower_height t)
             (tower_power t) (tower_freq t) (lats ! j) (lons ! i)"
    if "i \<in> set [0..<n]" "j \<in> set [0..<n]" for t i j
    using that assms by simp
  have row: "map (\<lambda>j. coverage_point (tower_lat t) (tower_lon t) (tower_height t)
             (tower_power t) (tower_freq t) (replicate n lats ! i ! j)
             (map (replicate n) lons ! i ! j)) [0..<n] =
           map (\<lambda>j. coverage_point (tower_lat t) (tower_lon t) (tower_height t)
             (tower_power t) (tower_freq t) (lats ! j) (lons ! i)) [0..<n]"
    if "i \<in> set [0..<n]" for t i
    by (rule map_cong [OF refl]) (rule cell [OF that])
  have block: "map (\<lambda>i. map (\<lambda>j. coverage_point (tower_lat t) (tower_lon t) (tower_height t)
             (tower_power t) (tower_freq t) (replicate n lats ! i ! j)
             (map (replicate n) lons ! i ! j)) [0..<n]) [0..<n] =
           map (\<lambda>i. map (\<lambda>j. coverage_point (tower_lat t) (tower_lon t) (tower_height t)
             (tower_power t) (tower_freq t) (lats ! j) (lons ! i)) [0..<n]) [0..<n]" for t
    by (rule map_cong [OF refl]) (rule row)
  have rows: "map (add_tower_info t)
        (concat (map (\<lambda>i. map (\<lambda>j. coverage_point (tower_lat t) (tower_lon t) (tower_height t)
             (tower_power t) (tower_freq t) (replicate n lats ! i ! j)
             (map (replicate n) lons ! i ! j)) [0..<n]) [0..<length (replicate n lats)])) =
     concat (map (\<lambda>i. map (\<lambda>j. tower_record t (lats ! j) (lons ! i)) [0..<n]) [0..<n])" for t
    unfolding length_replicate block
    by (simp add: map_concat comp_def tower_record_def)
  have "all_coverage_data ts (replicate n lats) (map (replicate n) lons) =
     Inr (concat (map (\<lambda>t. map (add_tower_info t)
        (concat (map (\<lambda>i. map (\<lambda>j. coverage_point (tower_lat t) (tower_lon t) (tower_height t)
             (tower_power t) (tower_freq t) (replicate n lats ! i ! j)
             (map (replicate n) lons ! i ! j)) [0..<n]) [0..<length (replicate n lats)]))) ts))"
    using assms by (intro all_coverage_data_rect) auto
  then show ?thesis by (simp only: rows)
qed

lemma select_columns_DataFrame:
  assumes "data \<noteq> []" "\<forall>d \<in> set data. map fst d = insertion_keys"
  shows "select_columns column_order (DataFrame data) =
     Inr (map (\<lambda>c. (c, map (\<lambda>d. dict_get d c) data)) column_order)"
proof -
  have "DataFrame data = map (\<lambda>c. (c, map (\<lambda>d. dict_get d c) data)) insertion_keys"
    unfolding DataFrame_def
    by (simp only: uniq_same_keys [OF assms(1) distinct_insertion_keys assms(2)])
  then show ?thesis
    by (simp only: select_columns_present [OF column_order_subset])
qed

lemma select_columns_empty: "select_columns column_order (DataFrame []) = Inl KeyError"
  by (simp add: select_columns_def DataFrame_def column_order_def)

section \<open>The aggregated dataset\<close>

lemma grid_block_length:
  "length (concat (map (\<lambda>i. map (\<lambda>j. tower_record t (lats ! j) (lons ! i)) [0..<n]) [0..<n])) =
     n * n"
  by (simp add: concat_uniform_length [where m = n])

lemma grid_block_nth:
  assumes "i < n" "j < n"
  shows "concat (map (\<lambda>i. map (\<lambda>j. tower_record t (lats ! j) (lons ! i)) [0..<n]) [0..<n]) !
           (i * n + j) = tower_record t (lats ! j) (lons ! i)"
proof -
  have "concat (map (\<lambda>i. map (\<lambda>j. tower_record t (lats ! j) (lons ! i)) [0..<n]) [0..<n]) !
           (i * n + j) =
        map (\<lambda>i. map (\<lambda>j. tower_record t (lats ! j) (lons ! i)) [0..<n]) [0..<n] ! i ! j"
    using assms by (intro concat_uniform_nth) auto
  then show ?thesis using assms by simp
qed

lemma aggregated_length:
  "length (concat (map (\<lambda>t. concat (map (\<lambda>i. map (\<lambda>j. tower_record t (lats ! j) (lons ! i))
                                              [0..<n]) [0..<n])) ts)) = length ts * (n * n)"
  by (simp add: concat_uniform_length [where m = "n * n"] grid_block_length)

lemma aggregated_nth:
  assumes "t < length ts" "i < n" "j < n"
  shows "concat (map (\<lambda>t. concat (map (\<lambda>i. map (\<lambda>j. tower_record t (lats ! j) (lons ! i))
                                              [0..<n]) [0..<n])) ts) !
           (t * (n * n) + (i * n + j)) = tower_record (ts ! t) (lats ! j) (lons ! i)"
proof -
  have r: "i * n + j < n * n" using assms(2,3) by (rule index_in_square)
  have "concat (map (\<lambda>t. concat (map (\<lambda>i. map (\<lambda>j. tower_record t (lats ! j) (lons ! i))
                                              [0..<n]) [0..<n])) ts) !
           (t * (n * n) + (i * n + j)) =
        map (\<lambda>t. concat (map (\<lambda>i. map (\<lambda>j. tower_record t (lats ! j) (lons ! i))
                                              [0..<n]) [0..<n])) ts ! t ! (i * n + j)"
    using assms(1) r by (intro concat_uniform_nth) (auto simp: grid_block_length)
  then show ?thesis using assms by (simp add: grid_block_nth)
qed


lemma coverage_dataset_rows:
  assumes "coverage_dataset ts clat clon N area = Inr df"
  shows "\<exists>data. data \<noteq> [] \<and>
     (\<forall>d \<in> set data. \<exists>t \<in> set ts. \<exists>la lo. d = tower_record t la lo) \<and>
     df = map (\<lambda>c. (c, map (\<lambda>d. dict_get d c) data)) column_order"
proof -
  have N: "0 \<le> N"
  proof (rule ccontr)
    assume "\<not> 0 \<le> N"
    then have "generate_coverage_grid clat clon N area = Inl ValueError"
      by (intro generate_coverage_grid_negative) simp
    then show False using assms by (simp add: coverage_dataset_def)
  qed
  obtain lats lons where g: "length lats = nat N" "length lons = nat N"
    "generate_coverage_grid clat clon N area =
       Inr (replicate (nat N) lats, map (replicate (nat N)) lons)"
    using generate_coverage_grid_shape [OF N] by blast
  define data where "data = concat (map (\<lambda>t. concat (map (\<lambda>i. map (\<lambda>j.
      tower_record t (lats ! j) (lons ! i)) [0..<nat N]) [0..<nat N])) ts)"
  have d: "all_coverage_data ts (replicate (nat N) lats) (map (replicate (nat N)) lons) = Inr data"
    unfolding data_def using g(1,2) by (rule all_coverage_data_grid)
  have sel: "select_columns column_order (DataFrame data) = Inr df"
    using assms by (simp add: coverage_dataset_def g(3) d)
  have ne: "data \<noteq> []"
    using sel by (auto simp: select_columns_empty)
  have mem: "\<forall>d \<in> set data. \<exists>t \<in> set ts. \<exists>la lo. d = tower_record t la lo"
    unfolding data_def by auto
  then have keys: "\<forall>d \<in> set data. map fst d = insertion_keys"
    by (auto simp: tower_record_keys)
  have "df = map (\<lambda>c. (c, map (\<lambda>d. dict_get d c) data)) column_order"
    using sel select_columns_DataFrame [OF ne keys] by simp
  then show ?thesis using ne mem by blast
qed

lemma coverage_dataset_exists:
  assumes "0 < N" "ts \<noteq> []"
  shows "\<exists>df. coverage_dataset ts clat clon N area = Inr df \<and> df_len df = length ts * (nat N * nat N)"
proof -
  have N: "0 \<le> N" using assms(1) by simp
  obtain lats lons where g: "length lats = nat N" "length lons = nat N"
    "generate_coverage_grid clat clon N area =
       Inr (replicate (nat N) lats, map (replicate (nat N)) lons)"
    using generate_coverage_grid_shape [OF N] by blast
  define data where "data = concat (map (\<lambda>t. concat (map (\<lambda>i. map (\<lambda>j.
      tower_record t (lats ! j) (lons ! i)) [0..<nat N]) [0..<nat N])) ts)"
  have d: "all_coverage_data ts (replicate (nat N) lats) (map (replicate (nat N)) lons) = Inr data"
    unfolding data_def using g(1,2) by (rule all_coverage_data_grid)
  have len: "length data = length ts * (nat N * nat N)"
    unfolding data_def by (rule aggregated_length)
  have "0 < length data" using len assms by simp
  then have ne: "data \<noteq> []" by auto
  have keys: "\<forall>d \<in> set data. map fst d = insertion_keys"
    unfolding data_def by (auto simp: tower_record_keys)
  have c: "coverage_dataset ts clat clon N area =
       Inr (map (\<lambda>c. (c, map (\<lambda>d. dict_get d c) data)) column_order)"
    by (simp add: coverage_dataset_def g(3) d select_columns_DataFrame [OF ne keys])
  have "df_len (map (\<lambda>c. (c, map (\<lambda>d. dict_get d c) data)) column_order) = length data"
    by (simp add: df_len_def column_order_def)
  then show ?thesis using c len by simp
qed



text \<open>
  C6. For a grid size \<open>N \<ge> 0\<close> the grid generator returns two matrices of \<open>N\<close> rows of
  length \<open>N\<close>, and for any list of towers the aggregator returns, without an exception,
  exactly \<open>T \<sqdot> N\<^sup>2\<close> records: the record at position \<open>t \<sqdot> N\<^sup>2 + i \<sqdot> N + j\<close> is the one of
  tower \<open>t\<close> and the grid point in row \<open>i\<close> and column \<open>j\<close> of the matrices. Towers come in
  the order of the list, grid points row by row; nothing is dropped or merged.
\<close>

theorem aggregator_cardinality_and_order:
  assumes "0 \<le> N"
  shows "\<exists>gl gn data. generate_coverage_grid clat clon N area = Inr (gl, gn) \<and>
     length gl = nat N \<and> (\<forall>row \<in> set gl. length row = nat N) \<and>
     length gn = nat N \<and> (\<forall>row \<in> set gn. length row = nat N) \<and>
     all_coverage_data ts gl gn = Inr data \<and>
     length data = length ts * (nat N * nat N) \<and>
     (\<forall>t < length ts. \<forall>i < nat N. \<forall>j < nat N.
        data ! (t * (nat N * nat N) + (i * nat N + j)) =
          tower_record (ts ! t) (gl ! i ! j) (gn ! i ! j))"
proof -
  obtain lats lons where g: "length lats = nat N" "length lons = nat N"
    "generate_coverage_grid clat clon N area =
       Inr (replicate (nat N) lats, map (replicate (nat N)) lons)"
    using generate_coverage_grid_shape [OF assms] by blast
  let ?gl = "replicate (nat N) lats"
  let ?gn = "map (replicate (nat N)) lons"
  let ?data = "concat (map (\<lambda>t. concat (map (\<lambda>i. map (\<lambda>j. tower_record t (lats ! j) (lons ! i))
                                              [0..<nat N]) [0..<nat N])) ts)"
  have d: "all_coverage_data ts ?gl ?gn = Inr ?data"
    using g(1,2) by (rule all_coverage_data_grid)
  have nth: "?data ! (t * (nat N * nat N) + (i * nat N + j)) =
          tower_record (ts ! t) (?gl ! i ! j) (?gn ! i ! j)"
    if "t < length ts" "i < nat N" "j < nat N" for t i j
    using that g(1,2) by (simp add: aggregated_nth)
  have shape: "length ?gl = nat N" "\<forall>row \<in> set ?gl. length row = nat N"
    "length ?gn = nat N" "\<forall>row \<in> set ?gn. length row = nat N"
    using g(1,2) by auto
  show ?thesis
    using g(3) d shape nth aggregated_length [of lats lons "nat N" ts] by blast
qed

theorem aggregator_cardinality_and_order_witness:
  "(0::int) \<le> 30 \<and>
   (\<exists>gl gn data. generate_coverage_grid (Fin 47.9212) (Fin 106.9186) 30 (Fin 15) = Inr (gl, gn) \<and>
      all_coverage_data towers gl gn = Inr data \<and> length data = 9000 \<and>
      data ! 0 = tower_record (towers ! 0) (gl ! 0 ! 0) (gn ! 0 ! 0))"
proof -
  have len: "length towers = 10" by (simp add: towers_def)
  obtain gl gn data where
    a: "generate_coverage_grid (Fin 47.9212) (Fin 106.9186) 30 (Fin 15) = Inr (gl, gn)"
      "all_coverage_data towers gl gn = Inr data"
      "length data = length towers * (nat 30 * nat 30)"
    and n: "\<forall>t < length towers. \<forall>i < nat 30. \<forall>j < nat 30.
        data ! (t * (nat 30 * nat 30) + (i * nat 30 + j)) =
          tower_record (towers ! t) (gl ! i ! j) (gn ! i ! j)"
    using aggregator_cardinality_and_order [of 30 "Fin 47.9212" "Fin 106.9186" "Fin 15" towers] by auto
  have "data ! (0 * (nat 30 * nat 30) + (0 * nat 30 + 0)) =
          tower_record (towers ! 0) (gl ! 0 ! 0) (gn ! 0 ! 0)"
    using n len by (intro n [rule_format]) simp_all
  then have "data ! 0 = tower_record (towers ! 0) (gl ! 0 ! 0) (gn ! 0 ! 0)" by simp
  then show ?thesis using a len by auto
qed

text \<open>
  C2, as the code has it. Every record of the frame that the run writes has the fifteen fields
  in the order of \<^verbatim>\<open>column_order\<close>; the eleventh is named \<^verbatim>\<open>Okahamaru_Error_dB\<close>.
\<close>

theorem dataset_field_order:
  assumes "coverage_dataset ts clat clon N area = Inr df"
  shows "df_columns df =
           [''Latitude'', ''Longitude'', ''Tower_Lat'', ''Tower_Lon'', ''Tower_Height_m'',
            ''Tower_Power_dBm'', ''Frequency_MHz'', ''Distance_km'', ''Path_Loss_dB'',
            ''Signal_Strength_dBm'', ''Okahamaru_Error_dB'', ''Cell_ID'', ''Tower_Type'',
            ''Environment_Type'', ''Model_Type''] \<and>
         (\<forall>k. map fst (df_row df k) =
           [''Latitude'', ''Longitude'', ''Tower_Lat'', ''Tower_Lon'', ''Tower_Height_m'',
            ''Tower_Power_dBm'', ''Frequency_MHz'', ''Distance_km'', ''Path_Loss_dB'',
            ''Signal_Strength_dBm'', ''Okahamaru_Error_dB'', ''Cell_ID'', ''Tower_Type'',
            ''Environment_Type'', ''Model_Type''])"
proof -
  obtain data where "df = map (\<lambda>c. (c, map (\<lambda>d. dict_get d c) data)) column_order"
    using coverage_dataset_rows [OF assms] by blast
  then have "map fst df = column_order" by (simp add: comp_def)
  then show ?thesis
    by (simp add: df_columns_def df_row_def comp_def column_order_def)
qed

theorem dataset_field_order_witness:
  "\<exists>df. coverage_dataset towers (Fin 47.9212) (Fin 106.9186) 30 (Fin 15) = Inr df \<and>
     df_columns df =
           [''Latitude'', ''Longitude'', ''Tower_Lat'', ''Tower_Lon'', ''Tower_Height_m'',
            ''Tower_Power_dBm'', ''Frequency_MHz'', ''Distance_km'', ''Path_Loss_dB'',
            ''Signal_Strength_dBm'', ''Okahamaru_Error_dB'', ''Cell_ID'', ''Tower_Type'',
            ''Environment_Type'', ''Model_Type'']"
proof -
  have "towers \<noteq> []" by (simp add: towers_def)
  then obtain df where
    df: "coverage_dataset towers (Fin 47.9212) (Fin 106.9186) 30 (Fin 15) = Inr df"
    using coverage_dataset_exists [of 30 towers "Fin 47.9212" "Fin 106.9186" "Fin 15"] by auto
  show ?thesis using df dataset_field_order [OF df] by blast
qed

text \<open>
  C2 as stated fails: the frame of the run with the ten towers and the 30 by 30 grid has no
  column named \<^verbatim>\<open>Error_dB\<close>, so its columns are not the list of the claim.
\<close>

theorem dataset_has_no_error_db_column:
  "map_sum id df_columns (coverage_dataset towers (Fin 47.9212) (Fin 106.9186) 30 (Fin 15)) \<noteq>
     Inr [''Latitude'', ''Longitude'', ''Tower_Lat'', ''Tower_Lon'', ''Tower_Height_m'',
          ''Tower_Power_dBm'', ''Frequency_MHz'', ''Distance_km'', ''Path_Loss_dB'',
          ''Signal_Strength_dBm'', ''Error_dB'', ''Cell_ID'', ''Tower_Type'',
          ''Environment_Type'', ''Model_Type'']"
proof -
  have "towers \<noteq> []" by (simp add: towers_def)
  then obtain df where
    df: "coverage_dataset towers (Fin 47.9212) (Fin 106.9186) 30 (Fin 15) = Inr df"
    using coverage_dataset_exists [of 30 towers "Fin 47.9212" "Fin 106.9186" "Fin 15"] by auto
  obtain data where "df = map (\<lambda>c. (c, map (\<lambda>d. dict_get d c) data)) column_order"
    using coverage_dataset_rows [OF df] by blast
  then have "df_columns df = column_order" by (simp add: df_columns_def comp_def)
  then show ?thesis unfolding df by (simp add: column_order_def)
qed




end
